theory Spec2Isabelle
  imports Complex_Main
begin

section \<open>Location-based services: spatial queries and route import\<close>

text \<open>
  A shallow embedding of the four spatial query views of \<^verbatim>\<open>geo/views.py\<close> and of the
  management command \<^verbatim>\<open>geo/management/commands/import_routes.py\<close>, over the three
  models of \<^verbatim>\<open>geo/models.py\<close>.

  The views delegate every geometric computation to the spatial database and every
  conversion of request text to the interpreter:
  \<^item> \<^verbatim>\<open>float(s)\<close> and \<^verbatim>\<open>int(s)\<close> of a text \<open>s\<close>;
  \<^item> \<^verbatim>\<open>Distance("location", origin)\<close> and the lookup \<^verbatim>\<open>location__distance_lte\<close>
    (one spherical distance in metres on a geodetic column);
  \<^item> the lookups \<^verbatim>\<open>location__within\<close> and \<^verbatim>\<open>path__intersects\<close>.
  None of these is code of the repository. They are the fields of a \<open>backend\<close> that
  every view takes as its first argument, so that a theorem about a view holds for
  every interpretation of them.
\<close>

subsection \<open>Models (geo/models.py)\<close>

text \<open>\<^verbatim>\<open>Point(lng, lat, srid=4326)\<close>: longitude first.\<close>

type_synonym point = "real \<times> real"

text \<open>A polygon is its exterior ring; a line string is its coordinate tuples.\<close>

type_synonym polygon = "point list"
type_synonym linestring = "real list list"

record area =
  pk :: int
  name :: string
  boundary :: polygon

record route =
  name :: string
  path :: linestring

record amenity =
  name :: string
  category :: string
  location :: point
  description :: string

text \<open>
  The tables behind \<^verbatim>\<open>Amenity.objects\<close>, \<^verbatim>\<open>Area.objects\<close> and \<^verbatim>\<open>Route.objects\<close>, each in
  the order in which the database scans it. The primary key is modelled for \<open>area\<close>, the
  one model the code looks up by it.
\<close>

record store =
  Amenity_objects :: "amenity list"
  Area_objects :: "area list"
  Route_objects :: "route list"

subsection \<open>Exceptions\<close>

text \<open>
  Every exception the modelled code raises or lets through. In a view,
  \<open>ValidationError\<close> is the rejection of the request (HTTP 400, the spec's
  InvalidArgument); any other exception leaves the view unhandled. In the command,
  \<open>CommandError\<close> is the reported failure; any other exception ends the run with a
  traceback.
\<close>

datatype exn =
    ValidationError string
  | CommandError string
  | DoesNotExist
  | ValueError
  | TypeError
  | ArgumentError

subsection \<open>What the views take from the interpreter and the database\<close>

record backend =
  py_float :: "string \<Rightarrow> real option"
  py_int :: "string \<Rightarrow> int option"
  Distance :: "point \<Rightarrow> point \<Rightarrow> real"
  location_within :: "point \<Rightarrow> polygon \<Rightarrow> bool"
  path_intersects :: "linestring \<Rightarrow> polygon \<Rightarrow> bool"

text \<open>
  \<open>py_float b s = None\<close> and \<open>py_int b s = None\<close> stand for the \<^verbatim>\<open>ValueError\<close> of
  \<^verbatim>\<open>float(s)\<close> and \<^verbatim>\<open>int(s)\<close>. A parsed float is a real number here: the values
  \<^verbatim>\<open>inf\<close> and \<^verbatim>\<open>nan\<close> and the rounding of a literal are outside the model.
\<close>

text \<open>
  \<^verbatim>\<open>request.query_params\<close>: the text of each parameter that is present.
  \<^verbatim>\<open>query_params.get(k)\<close> is \<open>q k\<close>; \<^verbatim>\<open>query_params.get(k, d)\<close> is \<open>get_default q k d\<close>.
\<close>

type_synonym query_params = "string \<rightharpoonup> string"

definition get_default :: "query_params \<Rightarrow> string \<Rightarrow> string \<Rightarrow> string" where
  "get_default q k d = (case q k of None \<Rightarrow> d | Some v \<Rightarrow> v)"

text \<open>
  \<^verbatim>\<open>float(request.query_params.get(k))\<close>: \<^verbatim>\<open>float(None)\<close> raises \<^verbatim>\<open>TypeError\<close>, an
  unparseable text \<^verbatim>\<open>ValueError\<close>; the views catch both with one handler, so both are
  \<open>None\<close> here.
\<close>

definition float_param :: "backend \<Rightarrow> query_params \<Rightarrow> string \<Rightarrow> real option" where
  "float_param b q k = (case q k of None \<Rightarrow> None | Some v \<Rightarrow> py_float b v)"

text \<open>
  \<^verbatim>\<open>Area.objects.get(pk=area_id)\<close>: the text is converted with \<^verbatim>\<open>int\<close> by the primary
  key's field, which raises \<^verbatim>\<open>ValueError\<close> for a text that is not an integer; then the
  row with that key is returned, or \<^verbatim>\<open>Area.DoesNotExist\<close> raised.
\<close>

definition Area_objects_get :: "backend \<Rightarrow> store \<Rightarrow> string \<Rightarrow> exn + area" where
  "Area_objects_get b db area_id =
     (case py_int b area_id of
        None \<Rightarrow> Inl ValueError
      | Some k \<Rightarrow>
          (case find (\<lambda>a. area.pk a = k) (Area_objects db) of
             None \<Rightarrow> Inl DoesNotExist
           | Some a \<Rightarrow> Inr a))"

subsection \<open>Spatial queries (geo/views.py)\<close>

text \<open>
  \<^verbatim>\<open>NearestAmenities.get\<close>. \<^verbatim>\<open>order_by("distance")\<close> is a stable sort by the distance
  here; the database leaves the order of rows at equal distance open. The view never
  reads \<^verbatim>\<open>area_id\<close>.
\<close>

definition NearestAmenities_get :: "backend \<Rightarrow> store \<Rightarrow> query_params \<Rightarrow> exn + amenity list" where
  "NearestAmenities_get b db q =
     (case float_param b q ''lat'' of
        None \<Rightarrow> Inl (ValidationError ''Query params 'lat' and 'lng' are required floats.'')
      | Some lat \<Rightarrow>
     (case float_param b q ''lng'' of
        None \<Rightarrow> Inl (ValidationError ''Query params 'lat' and 'lng' are required floats.'')
      | Some lng \<Rightarrow>
     (case py_int b (get_default q ''limit'' ''10'') of
        None \<Rightarrow> Inl (ValidationError ''Query param 'limit' must be a positive integer.'')
      | Some limit \<Rightarrow>
          if limit \<le> 0
          then Inl (ValidationError ''Query param 'limit' must be greater than zero.'')
          else
            let limit = min limit 100;
                origin = (lng, lat)
            in Inr (take (nat limit)
                 (sort_key (\<lambda>a. Distance b (amenity.location a) origin)
                    (Amenity_objects db))))))"

text \<open>\<^verbatim>\<open>AmenitiesWithinArea.get\<close>. \<^verbatim>\<open>not area_id\<close> holds of a missing and of an empty text.\<close>

definition AmenitiesWithinArea_get :: "backend \<Rightarrow> store \<Rightarrow> query_params \<Rightarrow> exn + amenity list" where
  "AmenitiesWithinArea_get b db q =
     (case q ''area_id'' of
        None \<Rightarrow> Inl (ValidationError ''Query param 'area_id' is required.'')
      | Some area_id \<Rightarrow>
          if area_id = []
          then Inl (ValidationError ''Query param 'area_id' is required.'')
          else
            (case Area_objects_get b db area_id of
               Inl DoesNotExist \<Rightarrow> Inl (ValidationError ''Area not found.'')
             | Inl e \<Rightarrow> Inl e
             | Inr area \<Rightarrow>
                 Inr (filter (\<lambda>a. location_within b (amenity.location a) (area.boundary area))
                        (Amenity_objects db))))"

text \<open>\<^verbatim>\<open>RoutesIntersectingArea.get\<close>.\<close>

definition RoutesIntersectingArea_get :: "backend \<Rightarrow> store \<Rightarrow> query_params \<Rightarrow> exn + route list" where
  "RoutesIntersectingArea_get b db q =
     (case q ''area_id'' of
        None \<Rightarrow> Inl (ValidationError ''Query param 'area_id' is required.'')
      | Some area_id \<Rightarrow>
          if area_id = []
          then Inl (ValidationError ''Query param 'area_id' is required.'')
          else
            (case Area_objects_get b db area_id of
               Inl DoesNotExist \<Rightarrow> Inl (ValidationError ''Area not found.'')
             | Inl e \<Rightarrow> Inl e
             | Inr area \<Rightarrow>
                 Inr (filter (\<lambda>r. path_intersects b (route.path r) (area.boundary area))
                        (Route_objects db))))"

text \<open>
  \<^verbatim>\<open>AmenitiesWithinRadius.get\<close>. \<^verbatim>\<open>D(km=km)\<close> is \<open>km * 1000\<close> metres. The view has no
  check of the sign of \<open>km\<close> and never reads \<^verbatim>\<open>area_id\<close>.
\<close>

definition AmenitiesWithinRadius_get :: "backend \<Rightarrow> store \<Rightarrow> query_params \<Rightarrow> exn + amenity list" where
  "AmenitiesWithinRadius_get b db q =
     (case float_param b q ''lat'' of
        None \<Rightarrow> Inl (ValidationError ''Params 'lat','lng','km' are required floats.'')
      | Some lat \<Rightarrow>
     (case float_param b q ''lng'' of
        None \<Rightarrow> Inl (ValidationError ''Params 'lat','lng','km' are required floats.'')
      | Some lng \<Rightarrow>
     (case py_float b (get_default q ''km'' ''1.0'') of
        None \<Rightarrow> Inl (ValidationError ''Params 'lat','lng','km' are required floats.'')
      | Some km \<Rightarrow>
          let origin = (lng, lat)
          in Inr (filter (\<lambda>a. Distance b (amenity.location a) origin \<le> km * 1000)
                    (Amenity_objects db)))))"

text \<open>The request was rejected as invalid, and with which text.\<close>

fun invalid_argument :: "exn + 'a \<Rightarrow> bool" where
  "invalid_argument (Inl (ValidationError m)) = True"
| "invalid_argument r = False"

fun error_text :: "exn + 'a \<Rightarrow> string" where
  "error_text (Inl (ValidationError m)) = m"
| "error_text r = []"

text \<open>\<^verbatim>\<open>w in text\<close>: the word occurs in the text as a contiguous run.\<close>

fun contains :: "string \<Rightarrow> string \<Rightarrow> bool" where
  "contains [] w = (w = [])"
| "contains (c # cs) w = (take (length w) (c # cs) = w \<or> contains cs w)"

subsection \<open>Route import (geo/management/commands/import_routes.py)\<close>

text \<open>
  The command reads feature collections parsed by \<^verbatim>\<open>json.load\<close>. A feature is modelled
  with the keys the command reads: \<^verbatim>\<open>geometry\<close> (\<open>None\<close> when the key is missing, null or
  an empty object), in it \<^verbatim>\<open>type\<close> and \<^verbatim>\<open>coordinates\<close> (\<open>None\<close> when missing or null),
  and \<^verbatim>\<open>properties\<close> with text values (the empty map when missing or null).
  Coordinates are nested arrays of numbers of any shape, as the command tests their shape
  itself.
\<close>

datatype coords = Num real | Arr "coords list"

record geometry =
  geom_type :: "string option"
  coordinates :: "coords option"

record feature =
  geometry :: "geometry option"
  properties :: "string \<rightharpoonup> string"

text \<open>
  A file is the last component of its path (\<^verbatim>\<open>geojson_path.name\<close>) and the value of
  \<^verbatim>\<open>payload.get("features", [])\<close>.
\<close>

record geojson_file =
  path_name :: string
  features :: "feature list"

text \<open>Python's truth value of coordinates: a number other than zero, a list that is not empty.\<close>

fun truthy :: "coords \<Rightarrow> bool" where
  "truthy (Num x) = (x \<noteq> 0)"
| "truthy (Arr cs) = (cs \<noteq> [])"

text \<open>\<^verbatim>\<open>str(n)\<close> of a natural number.\<close>

function str_nat :: "nat \<Rightarrow> string" where
  "str_nat n =
     (if n < 10 then [''0123456789'' ! n]
      else str_nat (n div 10) @ [''0123456789'' ! (n mod 10)])"
  by pat_completeness auto
termination
  by (relation "measure id") auto

declare str_nat.simps [simp del]

text \<open>
  \<^verbatim>\<open>Path.stem\<close>: the name up to its last dot, when that dot is neither the first nor the last
  character.
\<close>

definition rfind :: "char \<Rightarrow> string \<Rightarrow> nat option" where
  "rfind c s =
     (let k = length (takeWhile (\<lambda>d. d \<noteq> c) (rev s))
      in if k = length s then None else Some (length s - 1 - k))"

definition stem :: "string \<Rightarrow> string" where
  "stem file =
     (case rfind (CHR ''.'') file of
        None \<Rightarrow> file
      | Some i \<Rightarrow> if 0 < i \<and> i < length file - 1 then take i file else file)"

text \<open>
  \<^verbatim>\<open>str.title()\<close> on ASCII text: a letter after a letter is lowered, any other letter is
  raised. Bytes outside ASCII are left as they are.
\<close>

definition ascii_lowercase :: string where
  "ascii_lowercase = ''abcdefghijklmnopqrstuvwxyz''"

definition ascii_uppercase :: string where
  "ascii_uppercase = ''ABCDEFGHIJKLMNOPQRSTUVWXYZ''"

definition upper :: "char \<Rightarrow> char" where
  "upper c = (case map_of (zip ascii_lowercase ascii_uppercase) c of None \<Rightarrow> c | Some u \<Rightarrow> u)"

definition lower :: "char \<Rightarrow> char" where
  "lower c = (case map_of (zip ascii_uppercase ascii_lowercase) c of None \<Rightarrow> c | Some l \<Rightarrow> l)"

fun title_from :: "bool \<Rightarrow> string \<Rightarrow> string" where
  "title_from previous_is_cased [] = []"
| "title_from previous_is_cased (c # cs) =
     (if c \<in> set ascii_lowercase \<or> c \<in> set ascii_uppercase
      then (if previous_is_cased then lower c else upper c) # title_from True cs
      else c # title_from False cs)"

definition title :: "string \<Rightarrow> string" where
  "title s = title_from False s"

definition replace :: "char \<Rightarrow> char \<Rightarrow> string \<Rightarrow> string" where
  "replace old new s = map (\<lambda>c. if c = old then new else c) s"

text \<open>
  The base name of a feature: \<^verbatim>\<open>properties.get("Name") or properties.get("name") or
  f"{geojson_path.stem.replace('_', ' ').title()} Feature {index}"\<close>. A missing and an
  empty text are both false.
\<close>

definition present :: "string option \<Rightarrow> bool" where
  "present v = (case v of None \<Rightarrow> False | Some s \<Rightarrow> s \<noteq> [])"

definition base_name_of :: "string \<Rightarrow> nat \<Rightarrow> (string \<rightharpoonup> string) \<Rightarrow> string" where
  "base_name_of file index props =
     (if present (props ''Name'') then the (props ''Name'')
      else if present (props ''name'') then the (props ''name'')
      else title (replace (CHR ''_'') (CHR '' '') (stem file)) @ '' Feature '' @ str_nat index)"

text \<open>
  \<^verbatim>\<open>LineString(segment, srid=4326)\<close> on a list: every coordinate must be a list, the first
  one of 2 or 3 entries and the others as long as the first, or \<^verbatim>\<open>TypeError\<close> is raised with
  the text given; then every entry must be a number, which the foreign-function layer
  checks, raising \<^verbatim>\<open>ctypes.ArgumentError\<close> (not a \<^verbatim>\<open>TypeError\<close>) otherwise.
\<close>

fun check_coords :: "nat option \<Rightarrow> coords list \<Rightarrow> string option" where
  "check_coords ndim [] = None"
| "check_coords ndim (Num x # cs) =
     Some ''Each coordinate should be a sequence (list or tuple)''"
| "check_coords None (Arr xs # cs) =
     (if length xs = 2 \<or> length xs = 3 then check_coords (Some (length xs)) cs
      else Some ''Dimension mismatch.'')"
| "check_coords (Some n) (Arr xs # cs) =
     (if length xs = n then check_coords (Some n) cs else Some ''Dimension mismatch.'')"

fun number :: "coords \<Rightarrow> real option" where
  "number (Num x) = Some x"
| "number (Arr cs) = None"

fun numbers :: "coords list \<Rightarrow> real list option" where
  "numbers [] = Some []"
| "numbers (c # cs) =
     (case number c of
        None \<Rightarrow> None
      | Some x \<Rightarrow> (case numbers cs of None \<Rightarrow> None | Some xs \<Rightarrow> Some (x # xs)))"

fun points :: "coords list \<Rightarrow> linestring option" where
  "points [] = Some []"
| "points (Num x # cs) = None"
| "points (Arr xs # cs) =
     (case numbers xs of
        None \<Rightarrow> None
      | Some p \<Rightarrow> (case points cs of None \<Rightarrow> None | Some ps \<Rightarrow> Some (p # ps)))"

definition LineString_init :: "coords list \<Rightarrow> exn \<times> string + linestring" where
  "LineString_init cs =
     (case check_coords None cs of
        Some message \<Rightarrow> Inl (TypeError, message)
      | None \<Rightarrow>
          (case points cs of
             None \<Rightarrow> Inl (ArgumentError, [])
           | Some line \<Rightarrow> Inr line))"

text \<open>
  \<^verbatim>\<open>Route.objects.update_or_create(name=name, defaults={"path": line})\<close>: the row of that
  name gets the new path, or a row is appended; the flag says which. The column
  \<^verbatim>\<open>name\<close> is unique, so at most one row has the name. Its length limit
  (\<^verbatim>\<open>max_length=100\<close>), which only the database enforces, is outside the model: the
  names are taken to fit the column.
\<close>

fun update_or_create :: "route list \<Rightarrow> string \<Rightarrow> linestring \<Rightarrow> route list \<times> bool" where
  "update_or_create [] name' line = ([\<lparr> route.name = name', path = line \<rparr>], True)"
| "update_or_create (r # rs) name' line =
     (if route.name r = name' then (r\<lparr> path := line \<rparr> # rs, False)
      else (case update_or_create rs name' line of (rs', created) \<Rightarrow> (r # rs', created)))"

text \<open>
  The state of a run: the database, the two counters and the lines written to
  \<^verbatim>\<open>self.stdout\<close>. The command runs outside a transaction, so what it wrote to the database
  before an exception stays: a raised exception comes with the state it left.
\<close>

record command_state =
  database :: store
  imported :: nat
  skipped :: nat
  stdout :: "string list"

type_synonym outcome = "exn \<times> command_state + command_state"

definition skip :: "command_state \<Rightarrow> command_state" where
  "skip st = st\<lparr> skipped := skipped st + 1 \<rparr>"

definition stdout_write :: "string \<Rightarrow> command_state \<Rightarrow> command_state" where
  "stdout_write message st = st\<lparr> stdout := stdout st @ [message] \<rparr>"

text \<open>
  The body of the loop over \<^verbatim>\<open>enumerate(segments, start=1)\<close>, with \<open>n\<close> for
  \<^verbatim>\<open>len(segments)\<close>. \<^verbatim>\<open>len\<close> of a number raises \<^verbatim>\<open>TypeError\<close> outside the \<^verbatim>\<open>try\<close>.
\<close>

definition import_segment ::
  "string \<Rightarrow> nat \<Rightarrow> string \<Rightarrow> nat \<Rightarrow> nat \<Rightarrow> coords \<Rightarrow> command_state \<Rightarrow> outcome" where
  "import_segment file index base_name n segment_idx segment st =
     (case segment of
        Num x \<Rightarrow> Inl (TypeError, st)
      | Arr cs \<Rightarrow>
          if length cs < 2 then Inr (skip st)
          else
            (case LineString_init cs of
               Inl (TypeError, exc) \<Rightarrow>
                 Inl (CommandError
                        (file @ '' feature '' @ str_nat index @ '' segment ''
                           @ str_nat segment_idx @ '': '' @ exc), st)
             | Inl (e, exc) \<Rightarrow> Inl (e, st)
             | Inr line \<Rightarrow>
                 let name' =
                       (if n > 1
                        then base_name @ '' (Segment '' @ str_nat segment_idx @ '')''
                        else base_name)
                 in (case update_or_create (Route_objects (database st)) name' line of
                       (rows, created) \<Rightarrow>
                         Inr (stdout_write ((if created then ''Created'' else ''Updated'')
                                       @ '' route: '' @ name')
                                (st\<lparr> database := (database st)\<lparr> Route_objects := rows \<rparr>,
                                     imported := imported st + 1 \<rparr>)))))"

fun import_segments ::
  "string \<Rightarrow> nat \<Rightarrow> string \<Rightarrow> nat \<Rightarrow> nat \<Rightarrow> coords list \<Rightarrow> command_state \<Rightarrow> outcome" where
  "import_segments file index base_name n segment_idx [] st = Inr st"
| "import_segments file index base_name n segment_idx (segment # rest) st =
     (case import_segment file index base_name n segment_idx segment st of
        Inl e \<Rightarrow> Inl e
      | Inr st' \<Rightarrow> import_segments file index base_name n (Suc segment_idx) rest st')"

text \<open>
  \<^verbatim>\<open>[coords for coords in coordinates if len(coords) >= 2]\<close>: \<open>None\<close> is the \<^verbatim>\<open>TypeError\<close> of
  \<^verbatim>\<open>len\<close> on a member that is a number.
\<close>

fun long_members :: "coords list \<Rightarrow> coords list option" where
  "long_members [] = Some []"
| "long_members (Num x # ms) = None"
| "long_members (Arr cs # ms) =
     (case long_members ms of
        None \<Rightarrow> None
      | Some segments \<Rightarrow> Some (if length cs \<ge> 2 then Arr cs # segments else segments))"

text \<open>
  The normalisation of the coordinates into \<^verbatim>\<open>segments\<close>: the coordinates themselves for a
  \<^verbatim>\<open>LineString\<close>, the members of 2 or more entries for a \<^verbatim>\<open>MultiLineString\<close> (iterating
  over a number raises \<^verbatim>\<open>TypeError\<close>, as \<^verbatim>\<open>len\<close> of one does), and \<open>None\<close> for any other
  geometry type.
\<close>

definition segments_of :: "string option \<Rightarrow> coords \<Rightarrow> exn + coords list option" where
  "segments_of t c =
     (if t = Some ''LineString'' then Inr (Some [c])
      else if t = Some ''MultiLineString''
      then
        (case c of
           Num x \<Rightarrow> Inl TypeError
         | Arr members \<Rightarrow>
             (case long_members members of
                None \<Rightarrow> Inl TypeError
              | Some segments \<Rightarrow> Inr (Some segments)))
      else Inr None)"

text \<open>The body of the loop over \<^verbatim>\<open>enumerate(features, start=1)\<close>.\<close>

definition import_feature :: "string \<Rightarrow> nat \<Rightarrow> feature \<Rightarrow> command_state \<Rightarrow> outcome" where
  "import_feature file index feat st =
     (case geometry feat of
        None \<Rightarrow> Inr (skip st)
      | Some g \<Rightarrow>
          let base_name = base_name_of file index (properties feat)
          in (case coordinates g of
                None \<Rightarrow> Inr (skip st)
              | Some c \<Rightarrow>
                  if \<not> truthy c then Inr (skip st)
                  else
                    (case segments_of (geom_type g) c of
                       Inl e \<Rightarrow> Inl (e, st)
                     | Inr None \<Rightarrow>
                         Inr (skip (stdout_write
                           (file @ '' feature '' @ str_nat index
                              @ '': unsupported geometry ''
                              @ (case geom_type g of None \<Rightarrow> ''None'' | Some t \<Rightarrow> t)
                              @ '', skipping.'') st))
                     | Inr (Some segments) \<Rightarrow>
                         if segments = [] then Inr (skip st)
                         else import_segments file index base_name
                                (length segments) 1 segments st)))"

fun import_features :: "string \<Rightarrow> nat \<Rightarrow> feature list \<Rightarrow> command_state \<Rightarrow> outcome" where
  "import_features file index [] st = Inr st"
| "import_features file index (feat # rest) st =
     (case import_feature file index feat st of
        Inl e \<Rightarrow> Inl e
      | Inr st' \<Rightarrow> import_features file (Suc index) rest st')"

text \<open>The body of the loop over the files, and the loop.\<close>

definition import_file :: "geojson_file \<Rightarrow> command_state \<Rightarrow> outcome" where
  "import_file f st =
     (if features f = [] then Inr (stdout_write (path_name f @ '': no features found.'') st)
      else import_features (path_name f) 1 (features f) st)"

fun import_files :: "geojson_file list \<Rightarrow> command_state \<Rightarrow> outcome" where
  "import_files [] st = Inr st"
| "import_files (f # rest) st =
     (case import_file f st of
        Inl e \<Rightarrow> Inl e
      | Inr st' \<Rightarrow> import_files rest st')"

text \<open>
  \<^verbatim>\<open>Command.handle\<close>, from the list \<^verbatim>\<open>files\<close> on: the resolution of the paths given on the
  command line against the file system, and the reading of the files, come before and
  are not modelled.
\<close>

definition handle :: "geojson_file list \<Rightarrow> bool \<Rightarrow> store \<Rightarrow> outcome" where
  "handle files reset db =
     (let st0 = \<lparr> database = db, imported = 0, skipped = 0, stdout = [] \<rparr>
      in if files = [] then Inl (CommandError ''No GeoJSON files found to import.'', st0)
         else
           let st1 =
                 (if reset
                  then stdout_write (''Deleted '' @ str_nat (length (Route_objects db))
                                @ '' existing routes.'')
                         (st0\<lparr> database := db\<lparr> Route_objects := [] \<rparr> \<rparr>)
                  else st0)
           in (case import_files files st1 of
                 Inl e \<Rightarrow> Inl e
               | Inr st \<Rightarrow>
                   if imported st = 0 then Inl (CommandError ''No routes were imported.'', st)
                   else
                     Inr (stdout_write (''Imported or updated '' @ str_nat (imported st)
                                   @ '' route segments''
                                   @ (if skipped st \<noteq> 0
                                      then ''; skipped '' @ str_nat (skipped st) @ ''.''
                                      else ''.'')) st)))"

text \<open>The state a run leaves, whether it returned or raised.\<close>

fun final :: "outcome \<Rightarrow> command_state" where
  "final (Inl (e, st)) = st"
| "final (Inr st) = st"

subsection \<open>What a run does to the Route table\<close>

text \<open>
  The names of the Route table, in table order, and the effect of
  \<^verbatim>\<open>update_or_create\<close> on them: a name that is not in the table yet is appended.
\<close>

definition route_names :: "command_state \<Rightarrow> string list" where
  "route_names st = map route.name (Route_objects (database st))"

definition upsert :: "string list \<Rightarrow> string \<Rightarrow> string list" where
  "upsert ns n = (if n \<in> set ns then ns else ns @ [n])"

text \<open>
  A step of the command is uniform when, from every state, it upserts the same sequence of
  names and raises or returns alike: nothing the command decides depends on the state.
\<close>

definition uniform :: "(command_state \<Rightarrow> outcome) \<Rightarrow> bool" where
  "uniform f =
     (\<exists>tr ab. \<forall>st. route_names (final (f st)) = foldl upsert (route_names st) tr
                  \<and> isl (f st) = ab)"

text \<open>The database a run of the command leaves, whether it returned or raised.\<close>

definition run :: "geojson_file list \<Rightarrow> bool \<Rightarrow> store \<Rightarrow> store" where
  "run files reset db = database (final (handle files reset db))"

text \<open>
  The final route name in the words of the specification: the base name unchanged if the
  feature produced exactly one segment, otherwise the base name followed by
  \<^verbatim>\<open> (Segment <n>)\<close>.
\<close>

definition final_name :: "string \<Rightarrow> nat \<Rightarrow> nat \<Rightarrow> string" where
  "final_name base_name produced n =
     (if produced = 1 then base_name
      else base_name @ '' (Segment '' @ str_nat n @ '')'')"

text \<open>A segment from which a line is built: 2 or more coordinates that \<^verbatim>\<open>LineString\<close> accepts.\<close>

definition line_ok :: "coords \<Rightarrow> bool" where
  "line_ok segment =
     (case segment of
        Num x \<Rightarrow> False
      | Arr cs \<Rightarrow> 2 \<le> length cs \<and> \<not> isl (LineString_init cs))"

text \<open>
  A member array of 2 or more entries, and the number of member arrays with fewer than 2
  entries.
\<close>

definition is_long :: "coords \<Rightarrow> bool" where
  "is_long m = (case m of Num x \<Rightarrow> False | Arr cs \<Rightarrow> 2 \<le> length cs)"

definition short_members :: "coords list \<Rightarrow> nat" where
  "short_members members =
     length (filter (\<lambda>m. case m of Num x \<Rightarrow> False | Arr cs \<Rightarrow> length cs < 2) members)"

subsection \<open>The fixture of geo/tests.py\<close>

text \<open>
  A backend to run the views on the rows of \<^verbatim>\<open>SpatialQueryTests.setUp\<close>. Its \<open>py_int\<close> and
  \<open>py_float\<close> read plain decimal literals (an optional sign, digits, and for a float an
  optional point followed by digits), on which they agree with \<^verbatim>\<open>int\<close> and \<^verbatim>\<open>float\<close>.
  Its geometry is a stand-in for the database's: the distance is 111 km for each degree of
  the larger coordinate difference, a point is within a ring when it lies strictly
  between the ring's extreme coordinates (exact for the axis-parallel rectangle of the
  tests), and a path intersects a ring when one of its vertices is within it.
\<close>

definition digit_value :: "char \<Rightarrow> nat option" where
  "digit_value = map_of
     [(CHR ''0'', 0), (CHR ''1'', 1), (CHR ''2'', 2), (CHR ''3'', 3), (CHR ''4'', 4),
      (CHR ''5'', 5), (CHR ''6'', 6), (CHR ''7'', 7), (CHR ''8'', 8), (CHR ''9'', 9)]"

fun digits_value :: "nat \<Rightarrow> string \<Rightarrow> nat option" where
  "digits_value acc [] = Some acc"
| "digits_value acc (c # cs) =
     (case digit_value c of
        None \<Rightarrow> None
      | Some d \<Rightarrow> digits_value (10 * acc + d) cs)"

definition unsigned_literal :: "string \<Rightarrow> nat option" where
  "unsigned_literal s = (if s = [] then None else digits_value 0 s)"

fun strip_sign :: "string \<Rightarrow> bool \<times> string" where
  "strip_sign [] = (False, [])"
| "strip_sign (c # cs) =
     (if c = CHR ''-'' then (True, cs)
      else if c = CHR ''+'' then (False, cs)
      else (False, c # cs))"

definition int_literal :: "string \<Rightarrow> int option" where
  "int_literal s =
     (case strip_sign s of (neg, u) \<Rightarrow>
        (case unsigned_literal u of
           None \<Rightarrow> None
         | Some n \<Rightarrow> Some (if neg then - int n else int n)))"

definition float_literal :: "string \<Rightarrow> real option" where
  "float_literal s =
     (case strip_sign s of (neg, u) \<Rightarrow>
        (case unsigned_literal (takeWhile (\<lambda>c. c \<noteq> CHR ''.'') u) of
           None \<Rightarrow> None
         | Some i \<Rightarrow>
             (case dropWhile (\<lambda>c. c \<noteq> CHR ''.'') u of
                [] \<Rightarrow> Some (if neg then - real i else real i)
              | dot # ds \<Rightarrow>
                  (case unsigned_literal ds of
                     None \<Rightarrow> None
                   | Some f \<Rightarrow>
                       let v = real i + real f / 10 ^ length ds
                       in Some (if neg then - v else v)))))"

definition flat_distance :: "point \<Rightarrow> point \<Rightarrow> real" where
  "flat_distance p origin =
     111000 * max \<bar>fst p - fst origin\<bar> \<bar>snd p - snd origin\<bar>"

definition box_within :: "point \<Rightarrow> polygon \<Rightarrow> bool" where
  "box_within p ring =
     (case ring of
        [] \<Rightarrow> False
      | v # vs \<Rightarrow>
          fold min (map fst vs) (fst v) < fst p \<and> fst p < fold max (map fst vs) (fst v) \<and>
          fold min (map snd vs) (snd v) < snd p \<and> snd p < fold max (map snd vs) (snd v))"

definition vertex_intersects :: "linestring \<Rightarrow> polygon \<Rightarrow> bool" where
  "vertex_intersects line ring =
     list_ex (\<lambda>c. case c of x # y # zs \<Rightarrow> box_within (x, y) ring | _ \<Rightarrow> False) line"

definition fixture :: backend where
  "fixture =
     \<lparr> py_float = float_literal,
       py_int = int_literal,
       Distance = flat_distance,
       location_within = box_within,
       path_intersects = vertex_intersects \<rparr>"

definition test_area :: area where
  "test_area =
     \<lparr> area.pk = 1,
       area.name = ''Test Area'',
       boundary = [(-6.28, 53.33), (-6.20, 53.33), (-6.20, 53.37), (-6.28, 53.37), (-6.28, 53.33)] \<rparr>"

definition river_walk :: route where
  "river_walk = \<lparr> route.name = ''River Walk'', path = [[-6.27, 53.35], [-6.21, 53.35]] \<rparr>"

definition brew_lab :: amenity where
  "brew_lab =
     \<lparr> amenity.name = ''Brew Lab'', category = ''cafe'', location = (-6.26, 53.35),
       description = ''Coffee spot'' \<rparr>"

definition lift_hub :: amenity where
  "lift_hub =
     \<lparr> amenity.name = ''Lift Hub'', category = ''gym'', location = (-6.25, 53.34),
       description = ''Fitness center'' \<rparr>"

definition far_cafe :: amenity where
  "far_cafe =
     \<lparr> amenity.name = ''Far Cafe'', category = ''cafe'', location = (-6.24, 53.38),
       description = ''Outside area'' \<rparr>"

definition test_db :: store where
  "test_db =
     \<lparr> Amenity_objects = [brew_lab, lift_hub, far_cafe],
       Area_objects = [test_area],
       Route_objects = [river_walk] \<rparr>"


subsection \<open>Sample features for the route import\<close>

text \<open>
  Features to run the command on: a \<^verbatim>\<open>LineString\<close>, a \<^verbatim>\<open>MultiLineString\<close> of three
  lines, one with two lines among four members, and one whose members are all too short.
\<close>

definition pair :: "real \<Rightarrow> real \<Rightarrow> coords" where
  "pair x y = Arr [Num x, Num y]"

definition canal_path :: feature where
  "canal_path =
     \<lparr> geometry = Some \<lparr> geom_type = Some ''LineString'',
         coordinates = Some (Arr [pair (-6.27) 53.35, pair (-6.21) 53.35]) \<rparr>,
       properties = [''Name'' \<mapsto> ''Canal Path''] \<rparr>"

definition coast_trail :: feature where
  "coast_trail =
     \<lparr> geometry = Some \<lparr> geom_type = Some ''MultiLineString'',
         coordinates = Some (Arr
           [Arr [pair (-6.27) 53.35, pair (-6.21) 53.35],
            Arr [pair (-6.21) 53.35, pair (-6.20) 53.36],
            Arr [pair (-6.20) 53.36, pair (-6.19) 53.37, pair (-6.18) 53.38]]) \<rparr>,
       properties = [''name'' \<mapsto> ''Coast Trail''] \<rparr>"

definition broken_loop :: feature where
  "broken_loop =
     \<lparr> geometry = Some \<lparr> geom_type = Some ''MultiLineString'',
         coordinates = Some (Arr
           [Arr [pair 1 2],
            Arr [pair 1 2, pair 3 4],
            Arr [],
            Arr [pair 5 6, pair 7 8, pair 9 10]]) \<rparr>,
       properties = Map.empty \<rparr>"

definition stubs :: feature where
  "stubs =
     \<lparr> geometry = Some \<lparr> geom_type = Some ''MultiLineString'',
         coordinates = Some (Arr [Arr [pair 1 2], Arr []]) \<rparr>,
       properties = Map.empty \<rparr>"

definition routes_demo :: geojson_file where
  "routes_demo = \<lparr> path_name = ''routes_demo.geojson'', features = [broken_loop] \<rparr>"

definition start :: command_state where
  "start = \<lparr> database = test_db, imported = 0, skipped = 0, stdout = [] \<rparr>"

section \<open>Properties of the spatial queries\<close>

lemmas literal_defs = float_literal_def int_literal_def unsigned_literal_def digit_value_def

lemmas fixture_defs = fixture_def test_db_def test_area_def river_walk_def brew_lab_def
  lift_hub_def far_cafe_def flat_distance_def box_within_def vertex_intersects_def

lemmas view_defs = NearestAmenities_get_def AmenitiesWithinArea_get_def
  RoutesIntersectingArea_get_def AmenitiesWithinRadius_get_def Area_objects_get_def
  float_param_def get_default_def

subsection \<open>The area filter of the nearest and the radius query\<close>

text \<open>
  Neither view reads \<^verbatim>\<open>area_id\<close>: whatever the parameter holds, the answer is the one
  given without it.
\<close>

lemma NearestAmenities_get_area_id:
  "NearestAmenities_get b db (q(''area_id'' := v)) = NearestAmenities_get b db q"
  by (simp add: NearestAmenities_get_def float_param_def get_default_def
      cong: option.case_cong)

lemma AmenitiesWithinRadius_get_area_id:
  "AmenitiesWithinRadius_get b db (q(''area_id'' := v)) = AmenitiesWithinRadius_get b db q"
  by (simp add: AmenitiesWithinRadius_get_def float_param_def get_default_def
      cong: option.case_cong)

text \<open>
  Claim C1 (every amenity returned by NearestAmenities with an area that resolves lies
  inside that area) fails on the code. On the rows of the tests, the request of
  \<^verbatim>\<open>test_nearest_respects_area_filter\<close> (limit 5, the id of the test area) is answered with
  all three amenities, Far Cafe among them, which is not within the area.
\<close>

theorem NearestAmenities_returns_amenity_outside_area:
  "NearestAmenities_get fixture test_db
     [''lat'' \<mapsto> ''53.35'', ''lng'' \<mapsto> ''-6.26'', ''limit'' \<mapsto> ''5'', ''area_id'' \<mapsto> ''1'']
     = Inr [brew_lab, lift_hub, far_cafe]
   \<and> Area_objects_get fixture test_db ''1'' = Inr test_area
   \<and> \<not> location_within fixture (amenity.location far_cafe) (area.boundary test_area)"
  by (simp add: view_defs fixture_defs literal_defs)

text \<open>
  Claim C3 (AmenitiesWithinRadius with an area that resolves returns exactly the amenities
  within the radius and inside the area) fails on the code. On the rows of the tests, the
  request of \<^verbatim>\<open>test_radius_respects_area_filter\<close> (5 km, the id of the test area) is
  answered with all three amenities, Far Cafe among them, which is not within the area.
\<close>

theorem AmenitiesWithinRadius_returns_amenity_outside_area:
  "AmenitiesWithinRadius_get fixture test_db
     [''lat'' \<mapsto> ''53.35'', ''lng'' \<mapsto> ''-6.26'', ''km'' \<mapsto> ''5'', ''area_id'' \<mapsto> ''1'']
     = Inr [brew_lab, lift_hub, far_cafe]
   \<and> Area_objects_get fixture test_db ''1'' = Inr test_area
   \<and> \<not> location_within fixture (amenity.location far_cafe) (area.boundary test_area)"
  by (simp add: view_defs fixture_defs literal_defs)

subsection \<open>Validation of the radius query\<close>

text \<open>
  Claim C2 as stated (AmenitiesWithinRadius fails with InvalidArgument when lat, lng or km
  is missing or not a float, or when km is not positive) is false at two requests with a
  valid origin: one without \<^verbatim>\<open>km\<close>, one with \<^verbatim>\<open>km=-1\<close>. Both are answered.
\<close>

theorem AmenitiesWithinRadius_accepts_missing_and_negative_km:
  "\<not> invalid_argument (AmenitiesWithinRadius_get fixture test_db
         [''lat'' \<mapsto> ''53.35'', ''lng'' \<mapsto> ''-6.26''])
   \<and> py_float fixture ''-1'' = Some (- 1)
   \<and> \<not> invalid_argument (AmenitiesWithinRadius_get fixture test_db
         [''lat'' \<mapsto> ''53.35'', ''lng'' \<mapsto> ''-6.26'', ''km'' \<mapsto> ''-1''])"
  by (simp add: view_defs fixture_defs literal_defs)

text \<open>
  Claim C2, amended: AmenitiesWithinRadius fails with InvalidArgument when \<^verbatim>\<open>lat\<close> or
  \<^verbatim>\<open>lng\<close> is missing or not parseable as a float, or when \<^verbatim>\<open>km\<close> is given and not
  parseable as a float; a request without \<^verbatim>\<open>km\<close> is answered as the same request with
  \<^verbatim>\<open>km=1.0\<close>.
\<close>

theorem AmenitiesWithinRadius_validation:
  "(float_param b q ''lat'' = None \<or> float_param b q ''lng'' = None
      \<or> (\<exists>v. q ''km'' = Some v \<and> py_float b v = None)
    \<longrightarrow> invalid_argument (AmenitiesWithinRadius_get b db q))
   \<and> (q ''km'' = None \<longrightarrow>
        AmenitiesWithinRadius_get b db q
          = AmenitiesWithinRadius_get b db (q(''km'' \<mapsto> ''1.0'')))"
  by (auto simp: AmenitiesWithinRadius_get_def float_param_def get_default_def
      split: option.splits)

theorem AmenitiesWithinRadius_validation_witness:
  "invalid_argument (AmenitiesWithinRadius_get fixture test_db
      [''lat'' \<mapsto> ''53.35'', ''lng'' \<mapsto> ''-6.26'', ''km'' \<mapsto> ''far''])
   \<and> invalid_argument (AmenitiesWithinRadius_get fixture test_db [''lng'' \<mapsto> ''-6.26''])
   \<and> AmenitiesWithinRadius_get fixture test_db [''lat'' \<mapsto> ''53.35'', ''lng'' \<mapsto> ''-6.26'']
       = AmenitiesWithinRadius_get fixture test_db
           [''lat'' \<mapsto> ''53.35'', ''lng'' \<mapsto> ''-6.26'', ''km'' \<mapsto> ''1.0'']"
proof -
  have a: "invalid_argument (AmenitiesWithinRadius_get fixture test_db
      [''lat'' \<mapsto> ''53.35'', ''lng'' \<mapsto> ''-6.26'', ''km'' \<mapsto> ''far''])"
    using AmenitiesWithinRadius_validation [of fixture
      "[''lat'' \<mapsto> ''53.35'', ''lng'' \<mapsto> ''-6.26'', ''km'' \<mapsto> ''far'']" test_db, THEN conjunct1]
    by (simp add: float_param_def fixture_def literal_defs)
  have b: "invalid_argument (AmenitiesWithinRadius_get fixture test_db [''lng'' \<mapsto> ''-6.26''])"
    using AmenitiesWithinRadius_validation [of fixture "[''lng'' \<mapsto> ''-6.26'']" test_db,
      THEN conjunct1]
    by (simp add: float_param_def)
  have c: "AmenitiesWithinRadius_get fixture test_db [''lat'' \<mapsto> ''53.35'', ''lng'' \<mapsto> ''-6.26'']
       = AmenitiesWithinRadius_get fixture test_db
           [''lat'' \<mapsto> ''53.35'', ''lng'' \<mapsto> ''-6.26'', ''km'' \<mapsto> ''1.0'']"
    using AmenitiesWithinRadius_validation [of fixture
      "[''lat'' \<mapsto> ''53.35'', ''lng'' \<mapsto> ''-6.26'']" test_db, THEN conjunct2]
    by simp
  from a b c show ?thesis by blast
qed

subsection \<open>Limit and order of the nearest query\<close>

text \<open>
  Claim C4: a valid call to NearestAmenities (\<^verbatim>\<open>lat\<close> and \<^verbatim>\<open>lng\<close> parse, the limit is an
  integer of at least 1) returns at most \<open>limit\<close> amenities, never more than 100, in
  non-decreasing distance to the origin. The answer holds as many rows as the table and
  the clamped limit allow, all of them rows of the table.
\<close>

theorem NearestAmenities_limit_sorted:
  assumes "float_param b q ''lat'' = Some lat"
    and "float_param b q ''lng'' = Some lng"
    and "py_int b (get_default q ''limit'' ''10'') = Some limit"
    and "1 \<le> limit"
  shows "\<exists>r. NearestAmenities_get b d q = Inr r
           \<and> length r \<le> nat limit
           \<and> length r \<le> 100
           \<and> sorted (map (\<lambda>a. Distance b (amenity.location a) (lng, lat)) r)
           \<and> length r = min (length (Amenity_objects d)) (nat (min limit 100))
           \<and> set r \<subseteq> set (Amenity_objects d)"
proof -
  let ?key = "\<lambda>a. Distance b (amenity.location a) (lng, lat)"
  let ?r = "take (nat (min limit 100)) (sort_key ?key (Amenity_objects d))"
  have res: "NearestAmenities_get b d q = Inr ?r"
    using assms by (simp add: NearestAmenities_get_def)
  have "sorted (map ?key (sort_key ?key (Amenity_objects d)))"
    by (rule sorted_sort_key)
  then have srt: "sorted (map ?key ?r)"
    by (simp add: take_map [symmetric] sorted_wrt_take)
  have len: "length ?r = min (length (Amenity_objects d)) (nat (min limit 100))"
    by simp
  have sub: "set ?r \<subseteq> set (Amenity_objects d)"
    using set_take_subset [of "nat (min limit 100)" "sort_key ?key (Amenity_objects d)"]
    by simp
  have "length ?r \<le> nat (min limit 100)"
    by simp
  then have "length ?r \<le> nat limit" and "length ?r \<le> 100"
    using assms(4) by linarith+
  with res srt len sub show ?thesis by blast
qed

theorem NearestAmenities_limit_sorted_witness:
  "\<exists>r. NearestAmenities_get fixture test_db
          [''lat'' \<mapsto> ''53.35'', ''lng'' \<mapsto> ''-6.26'', ''limit'' \<mapsto> ''2''] = Inr r
     \<and> length r \<le> 2
     \<and> sorted (map (\<lambda>a. Distance fixture (amenity.location a) (-6.26, 53.35)) r)"
  using NearestAmenities_limit_sorted [of fixture
      "[''lat'' \<mapsto> ''53.35'', ''lng'' \<mapsto> ''-6.26'', ''limit'' \<mapsto> ''2'']"
      "53.35" "-6.26" 2 test_db]
  by (simp add: float_param_def get_default_def fixture_def literal_defs) blast

subsection \<open>Validation of the limit\<close>

text \<open>
  Claim C5 as stated (whenever the limit is not an integer or not positive, NearestAmenities
  fails with InvalidArgument and the error text contains "limit") is false at the request
  \<^verbatim>\<open>limit=abc\<close> without \<^verbatim>\<open>lat\<close> and \<^verbatim>\<open>lng\<close>: the origin is validated first, and the text of
  its error does not mention the limit.
\<close>

theorem NearestAmenities_limit_text_counterexample:
  "py_int fixture ''abc'' = None
   \<and> invalid_argument (NearestAmenities_get fixture test_db [''limit'' \<mapsto> ''abc''])
   \<and> error_text (NearestAmenities_get fixture test_db [''limit'' \<mapsto> ''abc''])
       = ''Query params 'lat' and 'lng' are required floats.''
   \<and> \<not> contains (error_text (NearestAmenities_get fixture test_db [''limit'' \<mapsto> ''abc'']))
         ''limit''"
  by (simp add: view_defs fixture_defs literal_defs)

text \<open>
  Claim C5, amended: whenever the limit is not parseable as an integer or is at most zero,
  NearestAmenities fails with InvalidArgument; when moreover \<^verbatim>\<open>lat\<close> and \<^verbatim>\<open>lng\<close> are
  present and parseable as floats, the error text contains "limit".
\<close>

theorem NearestAmenities_limit_validation:
  assumes "py_int b (get_default q ''limit'' ''10'') = None
           \<or> (\<exists>limit. py_int b (get_default q ''limit'' ''10'') = Some limit \<and> limit \<le> 0)"
  shows "invalid_argument (NearestAmenities_get b d q)
         \<and> (float_param b q ''lat'' \<noteq> None \<and> float_param b q ''lng'' \<noteq> None
              \<longrightarrow> contains (error_text (NearestAmenities_get b d q)) ''limit'')"
  using assms
  by (auto simp: NearestAmenities_get_def split: option.splits)

theorem NearestAmenities_limit_validation_witness:
  "invalid_argument (NearestAmenities_get fixture test_db
      [''lat'' \<mapsto> ''53.35'', ''lng'' \<mapsto> ''-6.26'', ''limit'' \<mapsto> ''abc''])
   \<and> contains (error_text (NearestAmenities_get fixture test_db
      [''lat'' \<mapsto> ''53.35'', ''lng'' \<mapsto> ''-6.26'', ''limit'' \<mapsto> ''abc''])) ''limit''
   \<and> contains (error_text (NearestAmenities_get fixture test_db
      [''lat'' \<mapsto> ''53.35'', ''lng'' \<mapsto> ''-6.26'', ''limit'' \<mapsto> ''0''])) ''limit''"
  using
    NearestAmenities_limit_validation [of fixture
      "[''lat'' \<mapsto> ''53.35'', ''lng'' \<mapsto> ''-6.26'', ''limit'' \<mapsto> ''abc'']" test_db]
    NearestAmenities_limit_validation [of fixture
      "[''lat'' \<mapsto> ''53.35'', ''lng'' \<mapsto> ''-6.26'', ''limit'' \<mapsto> ''0'']" test_db]
  by (simp add: float_param_def get_default_def fixture_def literal_defs)

subsection \<open>Resolution of the area\<close>

text \<open>
  What the two area views do with an \<^verbatim>\<open>area_id\<close> that is missing or empty, and with one
  that is an integer no row has as its key: they reject the request.
\<close>

lemma AmenitiesWithinArea_get_missing:
  "q ''area_id'' = None \<or> q ''area_id'' = Some [] \<Longrightarrow>
     AmenitiesWithinArea_get b d q = Inl (ValidationError ''Query param 'area_id' is required.'')"
  by (auto simp: AmenitiesWithinArea_get_def)

lemma RoutesIntersectingArea_get_missing:
  "q ''area_id'' = None \<or> q ''area_id'' = Some [] \<Longrightarrow>
     RoutesIntersectingArea_get b d q
       = Inl (ValidationError ''Query param 'area_id' is required.'')"
  by (auto simp: RoutesIntersectingArea_get_def)

lemma Area_objects_get_DoesNotExist:
  "py_int b area_id = Some k \<Longrightarrow> k \<notin> area.pk ` set (Area_objects d) \<Longrightarrow>
     Area_objects_get b d area_id = Inl DoesNotExist"
  by (auto simp: Area_objects_get_def find_None_iff split: option.splits)

lemma AmenitiesWithinArea_get_not_found:
  "q ''area_id'' = Some area_id \<Longrightarrow> area_id \<noteq> [] \<Longrightarrow>
   Area_objects_get b d area_id = Inl DoesNotExist \<Longrightarrow>
     AmenitiesWithinArea_get b d q = Inl (ValidationError ''Area not found.'')"
  by (simp add: AmenitiesWithinArea_get_def)

lemma RoutesIntersectingArea_get_not_found:
  "q ''area_id'' = Some area_id \<Longrightarrow> area_id \<noteq> [] \<Longrightarrow>
   Area_objects_get b d area_id = Inl DoesNotExist \<Longrightarrow>
     RoutesIntersectingArea_get b d q = Inl (ValidationError ''Area not found.'')"
  by (simp add: RoutesIntersectingArea_get_def)

text \<open>
  Claim C6 (AmenitiesWithinArea and RoutesIntersectingArea fail with InvalidArgument when
  \<^verbatim>\<open>area_id\<close> is missing or no Area with that id exists) fails on the code at an
  \<^verbatim>\<open>area_id\<close> that is not an integer: no Area has the id \<^verbatim>\<open>abc\<close>, but the lookup raises
  \<^verbatim>\<open>ValueError\<close> before it can raise \<^verbatim>\<open>Area.DoesNotExist\<close>, the only exception the views
  turn into a rejection.
\<close>

theorem area_views_non_integer_area_id:
  "py_int fixture ''abc'' = None
   \<and> AmenitiesWithinArea_get fixture test_db [''area_id'' \<mapsto> ''abc''] = Inl ValueError
   \<and> RoutesIntersectingArea_get fixture test_db [''area_id'' \<mapsto> ''abc''] = Inl ValueError
   \<and> \<not> invalid_argument (AmenitiesWithinArea_get fixture test_db [''area_id'' \<mapsto> ''abc''])
   \<and> \<not> invalid_argument (RoutesIntersectingArea_get fixture test_db [''area_id'' \<mapsto> ''abc''])"
  by (simp add: view_defs fixture_defs literal_defs)

subsection \<open>Amenities within an area\<close>

text \<open>
  Claim C7: for an \<^verbatim>\<open>area_id\<close> that resolves to an Area, AmenitiesWithinArea returns exactly
  the amenities whose location is within the boundary of that Area (the rows of the table
  that pass the database's point-in-polygon test, in table order): none is missing, none
  is added.
\<close>

theorem AmenitiesWithinArea_exact:
  assumes "q ''area_id'' = Some area_id"
    and "area_id \<noteq> []"
    and "Area_objects_get b d area_id = Inr a"
  shows "\<exists>r. AmenitiesWithinArea_get b d q = Inr r
           \<and> r = filter (\<lambda>x. location_within b (amenity.location x) (area.boundary a))
                   (Amenity_objects d)
           \<and> set r = {x \<in> set (Amenity_objects d).
                        location_within b (amenity.location x) (area.boundary a)}"
  using assms by (simp add: AmenitiesWithinArea_get_def)

theorem AmenitiesWithinArea_exact_witness:
  "\<exists>r. AmenitiesWithinArea_get fixture test_db [''area_id'' \<mapsto> ''1''] = Inr r
      \<and> r = [brew_lab, lift_hub]
      \<and> set r = {x \<in> set (Amenity_objects test_db).
                 location_within fixture (amenity.location x) (area.boundary test_area)}"
  using AmenitiesWithinArea_exact
    [of "[''area_id'' \<mapsto> ''1'']" "''1''" fixture test_db test_area]
  by (simp add: Area_objects_get_def fixture_defs literal_defs)

section \<open>Properties of the route import\<close>

lemmas import_fixture_defs = coast_trail_def broken_loop_def stubs_def routes_demo_def
  start_def pair_def

lemmas import_defs = import_feature_def segments_of_def import_segment_def
  LineString_init_def base_name_of_def present_def skip_def stdout_write_def stem_def
  rfind_def title_def replace_def upper_def lower_def ascii_lowercase_def
  ascii_uppercase_def import_file_def handle_def

subsection \<open>The names a run upserts do not depend on the database\<close>

lemma update_or_create_names:
  "map route.name (fst (update_or_create rs n l)) = upsert (map route.name rs) n"
  by (induction rs) (auto simp: upsert_def split: prod.splits)

lemma uniformI:
  assumes "\<And>st. route_names (final (f st)) = foldl upsert (route_names st) tr"
    and "\<And>st. isl (f st) = ab"
  shows "uniform f"
  unfolding uniform_def using assms by blast

lemma uniform_seq:
  assumes "uniform f" and "uniform g"
  shows "uniform (\<lambda>st. case f st of Inl e \<Rightarrow> Inl e | Inr st' \<Rightarrow> g st')"
proof -
  from assms(1) obtain tr1 ab1 where
    f: "\<And>st. route_names (final (f st)) = foldl upsert (route_names st) tr1"
       "\<And>st. isl (f st) = ab1"
    unfolding uniform_def by blast
  from assms(2) obtain tr2 ab2 where
    g: "\<And>st. route_names (final (g st)) = foldl upsert (route_names st) tr2"
       "\<And>st. isl (g st) = ab2"
    unfolding uniform_def by blast
  show ?thesis
  proof (cases ab1)
    case True
    show ?thesis
    proof (rule uniformI [where tr = tr1 and ab = True])
      fix st
      from f(2) [of st] True obtain e where "f st = Inl e" by (cases "f st") auto
      then show "route_names (final (case f st of Inl e \<Rightarrow> Inl e | Inr st' \<Rightarrow> g st'))
          = foldl upsert (route_names st) tr1"
        using f(1) [of st] by simp
      from \<open>f st = Inl e\<close> show "isl (case f st of Inl e \<Rightarrow> Inl e | Inr st' \<Rightarrow> g st') = True"
        by simp
    qed
  next
    case False
    show ?thesis
    proof (rule uniformI [where tr = "tr1 @ tr2" and ab = ab2])
      fix st
      from f(2) [of st] False obtain st' where st': "f st = Inr st'" by (cases "f st") auto
      then have "route_names st' = foldl upsert (route_names st) tr1"
        using f(1) [of st] by simp
      then show "route_names (final (case f st of Inl e \<Rightarrow> Inl e | Inr st' \<Rightarrow> g st'))
          = foldl upsert (route_names st) (tr1 @ tr2)"
        using st' g(1) [of st'] by simp
      from st' show "isl (case f st of Inl e \<Rightarrow> Inl e | Inr st' \<Rightarrow> g st') = ab2"
        using g(2) [of st'] by simp
    qed
  qed
qed

lemma uniform_raise: "uniform (\<lambda>st. Inl (e, st))"
  by (rule uniformI [where tr = "[]" and ab = True]) simp_all

lemma uniform_return: "uniform (\<lambda>st. Inr st)"
  by (rule uniformI [where tr = "[]" and ab = False]) simp_all

lemma route_names_skip [simp]: "route_names (skip st) = route_names st"
  by (simp add: route_names_def skip_def)

lemma route_names_stdout_write [simp]: "route_names (stdout_write m st) = route_names st"
  by (simp add: route_names_def stdout_write_def)

lemma uniform_skip: "uniform (\<lambda>st. Inr (skip st))"
  by (rule uniformI [where tr = "[]" and ab = False]) simp_all

lemma uniform_warn_skip: "uniform (\<lambda>st. Inr (skip (stdout_write m st)))"
  by (rule uniformI [where tr = "[]" and ab = False]) simp_all

lemma uniform_warn: "uniform (\<lambda>st. Inr (stdout_write m st))"
  by (rule uniformI [where tr = "[]" and ab = False]) simp_all

lemma uniform_import_segment: "uniform (import_segment file index base_name n k segment)"
proof (cases segment)
  case (Num x)
  then have "import_segment file index base_name n k segment = (\<lambda>st. Inl (TypeError, st))"
    by (simp add: import_segment_def fun_eq_iff)
  then show ?thesis by (simp add: uniform_raise)
next
  case (Arr cs)
  show ?thesis
  proof (cases "length cs < 2")
    case True
    with Arr have "import_segment file index base_name n k segment = (\<lambda>st. Inr (skip st))"
      by (simp add: import_segment_def fun_eq_iff)
    then show ?thesis by (simp add: uniform_skip)
  next
    case False
    show ?thesis
    proof (cases "LineString_init cs")
      case (Inl err)
      obtain e exc where err: "err = (e, exc)" by (cases err)
      show ?thesis
      proof (rule uniformI [where tr = "[]" and ab = True])
        fix st
        show "route_names (final (import_segment file index base_name n k segment st))
            = foldl upsert (route_names st) []"
          using Arr False Inl err by (cases e) (simp_all add: import_segment_def)
        show "isl (import_segment file index base_name n k segment st) = True"
          using Arr False Inl err by (cases e) (simp_all add: import_segment_def)
      qed
    next
      case (Inr line)
      define name' where
        "name' = (if n > 1 then base_name @ '' (Segment '' @ str_nat k @ '')'' else base_name)"
      show ?thesis
      proof (rule uniformI [where tr = "[name']" and ab = False])
        fix st :: command_state
        obtain rows created where
          uc: "update_or_create (Route_objects (database st)) name' line = (rows, created)"
          by (cases "update_or_create (Route_objects (database st)) name' line")
        have res: "import_segment file index base_name n k segment st
            = Inr (stdout_write ((if created then ''Created'' else ''Updated'')
                                   @ '' route: '' @ name')
                     (st\<lparr> database := (database st)\<lparr> Route_objects := rows \<rparr>,
                          imported := imported st + 1 \<rparr>))"
          using Arr False Inr uc unfolding name'_def
          by (cases "n > 1") (simp_all add: import_segment_def)
        have "map route.name rows = upsert (map route.name (Route_objects (database st))) name'"
          using update_or_create_names [of "Route_objects (database st)" name' line] uc
          by simp
        with res show "route_names (final (import_segment file index base_name n k segment st))
            = foldl upsert (route_names st) [name']"
          by (simp add: route_names_def stdout_write_def)
        from res show "isl (import_segment file index base_name n k segment st) = False"
          by simp
      qed
    qed
  qed
qed

lemma uniform_import_segments: "uniform (import_segments file index base_name n k segments)"
proof (induction segments arbitrary: k)
  case Nil
  have "import_segments file index base_name n k [] = (\<lambda>st. Inr st)"
    by (simp add: fun_eq_iff)
  then show ?case by (simp add: uniform_return)
next
  case (Cons segment rest)
  have "import_segments file index base_name n k (segment # rest)
      = (\<lambda>st. case import_segment file index base_name n k segment st of
                 Inl e \<Rightarrow> Inl e
               | Inr st' \<Rightarrow> import_segments file index base_name n (Suc k) rest st')"
    by (simp add: fun_eq_iff)
  then show ?case
    using uniform_seq [OF uniform_import_segment Cons.IH] by simp
qed

lemma uniform_import_feature: "uniform (import_feature file index feat)"
proof (cases "geometry feat")
  case None
  then have "import_feature file index feat = (\<lambda>st. Inr (skip st))"
    by (simp add: import_feature_def fun_eq_iff)
  then show ?thesis by (simp add: uniform_skip)
next
  case (Some g)
  show ?thesis
  proof (cases "coordinates g")
    case None
    with Some have "import_feature file index feat = (\<lambda>st. Inr (skip st))"
      by (simp add: import_feature_def fun_eq_iff)
    then show ?thesis by (simp add: uniform_skip)
  next
    case c: (Some c)
    show ?thesis
    proof (cases "truthy c")
      case False
      with Some c have "import_feature file index feat = (\<lambda>st. Inr (skip st))"
        by (simp add: import_feature_def fun_eq_iff)
      then show ?thesis by (simp add: uniform_skip)
    next
      case True
      show ?thesis
      proof (cases "segments_of (geom_type g) c")
        case (Inl e)
        with Some c True have "import_feature file index feat = (\<lambda>st. Inl (e, st))"
          by (simp add: import_feature_def fun_eq_iff)
        then show ?thesis by (simp add: uniform_raise)
      next
        case (Inr produced)
        show ?thesis
        proof (cases produced)
          case None
          with Some c True Inr have "import_feature file index feat
              = (\<lambda>st. Inr (skip (stdout_write
                   (file @ '' feature '' @ str_nat index @ '': unsupported geometry ''
                      @ (case geom_type g of None \<Rightarrow> ''None'' | Some t \<Rightarrow> t)
                      @ '', skipping.'') st)))"
            by (simp add: import_feature_def fun_eq_iff)
          then show ?thesis by (simp add: uniform_warn_skip)
        next
          case segs: (Some segments)
          show ?thesis
          proof (cases "segments = []")
            case True
            with Some c \<open>truthy c\<close> Inr segs
            have "import_feature file index feat = (\<lambda>st. Inr (skip st))"
              by (simp add: import_feature_def fun_eq_iff)
            then show ?thesis by (simp add: uniform_skip)
          next
            case False
            with Some c \<open>truthy c\<close> Inr segs
            have "import_feature file index feat
                = import_segments file index (base_name_of file index (properties feat))
                    (length segments) 1 segments"
              by (simp add: import_feature_def fun_eq_iff)
            then show ?thesis by (simp add: uniform_import_segments)
          qed
        qed
      qed
    qed
  qed
qed

lemma uniform_import_features: "uniform (import_features file index feats)"
proof (induction feats arbitrary: index)
  case Nil
  have "import_features file index [] = (\<lambda>st. Inr st)"
    by (simp add: fun_eq_iff)
  then show ?case by (simp add: uniform_return)
next
  case (Cons feat rest)
  have "import_features file index (feat # rest)
      = (\<lambda>st. case import_feature file index feat st of
                 Inl e \<Rightarrow> Inl e
               | Inr st' \<Rightarrow> import_features file (Suc index) rest st')"
    by (simp add: fun_eq_iff)
  then show ?case
    using uniform_seq [OF uniform_import_feature Cons.IH] by simp
qed

lemma uniform_import_file: "uniform (import_file f)"
proof (cases "features f = []")
  case True
  then have "import_file f = (\<lambda>st. Inr (stdout_write (path_name f @ '': no features found.'') st))"
    by (simp add: import_file_def fun_eq_iff)
  then show ?thesis by (simp add: uniform_warn)
next
  case False
  then have "import_file f = import_features (path_name f) 1 (features f)"
    by (simp add: import_file_def fun_eq_iff)
  then show ?thesis by (simp add: uniform_import_features)
qed

lemma uniform_import_files: "uniform (import_files files)"
proof (induction files)
  case Nil
  have "import_files [] = (\<lambda>st. Inr st)"
    by (simp add: fun_eq_iff)
  then show ?case by (simp add: uniform_return)
next
  case (Cons f rest)
  have "import_files (f # rest)
      = (\<lambda>st. case import_file f st of Inl e \<Rightarrow> Inl e | Inr st' \<Rightarrow> import_files rest st')"
    by (simp add: fun_eq_iff)
  then show ?case
    using uniform_seq [OF uniform_import_file Cons.IH] by simp
qed

lemma set_foldl_upsert: "set (foldl upsert ns tr) = set ns \<union> set tr"
  by (induction tr arbitrary: ns) (auto simp: upsert_def)

lemma foldl_upsert_absorb: "set tr \<subseteq> set ns \<Longrightarrow> foldl upsert ns tr = ns"
  by (induction tr arbitrary: ns) (auto simp: upsert_def)

lemma foldl_upsert_twice: "foldl upsert (foldl upsert ns tr) tr = foldl upsert ns tr"
  by (rule foldl_upsert_absorb) (simp add: set_foldl_upsert)

lemma run_no_files: "run [] reset db = db"
  by (simp add: run_def handle_def)

lemma run_route_names:
  assumes "files \<noteq> []"
  shows "\<exists>tr. \<forall>db. map route.name (Route_objects (run files reset db))
      = foldl upsert (if reset then [] else map route.name (Route_objects db)) tr"
proof -
  from uniform_import_files [of files] obtain tr where
    tr: "\<And>st. route_names (final (import_files files st)) = foldl upsert (route_names st) tr"
    unfolding uniform_def by blast
  have "map route.name (Route_objects (run files reset db))
      = foldl upsert (if reset then [] else map route.name (Route_objects db)) tr" for db
  proof -
    define st1 where "st1 =
      (if reset
       then stdout_write (''Deleted '' @ str_nat (length (Route_objects db))
                            @ '' existing routes.'')
              (\<lparr> database = db, imported = 0, skipped = 0, stdout = [] \<rparr>
                 \<lparr> database := db\<lparr> Route_objects := [] \<rparr> \<rparr>)
       else \<lparr> database = db, imported = 0, skipped = 0, stdout = [] \<rparr>)"
    have st1: "route_names st1 = (if reset then [] else map route.name (Route_objects db))"
      by (simp add: st1_def route_names_def stdout_write_def)
    have "route_names (final (handle files reset db))
        = route_names (final (import_files files st1))"
      using assms unfolding handle_def Let_def st1_def [symmetric]
      by (cases "import_files files st1") (auto simp: split: prod.splits)
    then show ?thesis
      using tr [of st1] st1 by (simp add: run_def route_names_def)
  qed
  then show ?thesis by blast
qed

subsection \<open>Importing twice\<close>

text \<open>
  Claim C8: running the import of the same files twice leaves the same number of Route
  records as running it once; the second run finds every name of the first and replaces
  paths only. It holds with and without \<^verbatim>\<open>--reset\<close>, and also for a run that ends in an
  error, for the database that run leaves: the Route table has the same names after the
  second run as after the first.
\<close>

theorem import_twice_route_count:
  "map route.name (Route_objects (run files reset (run files reset db)))
     = map route.name (Route_objects (run files reset db))
   \<and> length (Route_objects (run files reset (run files reset db)))
     = length (Route_objects (run files reset db))"
proof (cases "files = []")
  case True
  then show ?thesis by (simp add: run_no_files)
next
  case False
  from run_route_names [OF False, of reset] obtain tr where
    tr: "\<And>db. map route.name (Route_objects (run files reset db))
      = foldl upsert (if reset then [] else map route.name (Route_objects db)) tr"
    by blast
  have names: "map route.name (Route_objects (run files reset (run files reset db)))
      = map route.name (Route_objects (run files reset db))"
  proof (cases reset)
    case True
    then show ?thesis using tr [of "run files reset db"] tr [of db] by simp
  next
    case False
    have "map route.name (Route_objects (run files reset (run files reset db)))
        = foldl upsert (foldl upsert (map route.name (Route_objects db)) tr) tr"
      using False tr [of "run files reset db"] tr [of db] by simp
    also have "\<dots> = foldl upsert (map route.name (Route_objects db)) tr"
      by (rule foldl_upsert_twice)
    also have "\<dots> = map route.name (Route_objects (run files reset db))"
      using False tr [of db] by simp
    finally show ?thesis .
  qed
  then have "length (Route_objects (run files reset (run files reset db)))
      = length (Route_objects (run files reset db))"
    by (rule map_eq_imp_length_eq)
  with names show ?thesis by (intro conjI)
qed

subsection \<open>Route names\<close>

lemma import_segment_line_ok:
  assumes "line_ok segment"
  shows "\<exists>st'. import_segment file index base_name n k segment st = Inr st'
           \<and> route_names st' = upsert (route_names st)
                 (if n > 1 then base_name @ '' (Segment '' @ str_nat k @ '')'' else base_name)
           \<and> imported st' = imported st + 1 \<and> skipped st' = skipped st"
proof -
  from assms obtain cs where cs: "segment = Arr cs" "2 \<le> length cs" "\<not> isl (LineString_init cs)"
    by (cases segment) (auto simp: line_ok_def)
  then obtain line where "LineString_init cs = Inr line"
    by (cases "LineString_init cs") auto
  with cs have seg: "segment = Arr cs" "2 \<le> length cs" "LineString_init cs = Inr line"
    by simp_all
  define name' where
    "name' = (if n > 1 then base_name @ '' (Segment '' @ str_nat k @ '')'' else base_name)"
  obtain rows created where
    uc: "update_or_create (Route_objects (database st)) name' line = (rows, created)"
    by (cases "update_or_create (Route_objects (database st)) name' line")
  have res: "import_segment file index base_name n k segment st
      = Inr (stdout_write ((if created then ''Created'' else ''Updated'')
                             @ '' route: '' @ name')
               (st\<lparr> database := (database st)\<lparr> Route_objects := rows \<rparr>,
                    imported := imported st + 1 \<rparr>))"
    using seg uc unfolding name'_def
    by (cases "n > 1") (simp_all add: import_segment_def)
  have "map route.name rows = upsert (map route.name (Route_objects (database st))) name'"
    using update_or_create_names [of "Route_objects (database st)" name' line] uc
    by simp
  with res show ?thesis
    unfolding name'_def [symmetric]
    by (simp add: route_names_def stdout_write_def)
qed

lemma import_segments_line_ok:
  assumes "\<forall>s \<in> set segments. line_ok s"
  shows "\<exists>st'. import_segments file index base_name n k segments st = Inr st'
           \<and> route_names st' = foldl upsert (route_names st)
                 (map (\<lambda>i. if n > 1 then base_name @ '' (Segment '' @ str_nat i @ '')''
                            else base_name) [k..<k + length segments])
           \<and> imported st' = imported st + length segments \<and> skipped st' = skipped st"
  using assms
proof (induction segments arbitrary: k st)
  case Nil
  then show ?case by simp
next
  case (Cons segment rest)
  from Cons.prems have "line_ok segment" by simp
  then have "\<exists>st1. import_segment file index base_name n k segment st = Inr st1
      \<and> route_names st1 = upsert (route_names st)
            (if n > 1 then base_name @ '' (Segment '' @ str_nat k @ '')'' else base_name)
      \<and> imported st1 = imported st + 1 \<and> skipped st1 = skipped st"
    by (rule import_segment_line_ok)
  then obtain st1 where
    st1: "import_segment file index base_name n k segment st = Inr st1"
      "route_names st1 = upsert (route_names st)
         (if n > 1 then base_name @ '' (Segment '' @ str_nat k @ '')'' else base_name)"
      "imported st1 = imported st + 1" "skipped st1 = skipped st"
    by blast
  from Cons.prems have "\<forall>s \<in> set rest. line_ok s" by simp
  then have "\<exists>st'. import_segments file index base_name n (Suc k) rest st1 = Inr st'
      \<and> route_names st' = foldl upsert (route_names st1)
            (map (\<lambda>i. if n > 1 then base_name @ '' (Segment '' @ str_nat i @ '')''
                       else base_name) [Suc k..<Suc k + length rest])
      \<and> imported st' = imported st1 + length rest \<and> skipped st' = skipped st1"
    by (rule Cons.IH)
  then obtain st' where
    st': "import_segments file index base_name n (Suc k) rest st1 = Inr st'"
      "route_names st' = foldl upsert (route_names st1)
         (map (\<lambda>i. if n > 1 then base_name @ '' (Segment '' @ str_nat i @ '')''
                    else base_name) [Suc k..<Suc k + length rest])"
      "imported st' = imported st1 + length rest" "skipped st' = skipped st1"
    by blast
  have "k < k + length (segment # rest)"
    by simp
  then have "[k..<k + length (segment # rest)] = k # [Suc k..<k + length (segment # rest)]"
    by (rule upt_conv_Cons)
  then have "[k..<k + length (segment # rest)] = k # [Suc k..<Suc k + length rest]"
    by simp
  with st1 st' show ?case by simp
qed

lemma set_upsert: "set (upsert ns n) = insert n (set ns)"
  by (auto simp: upsert_def)

lemma route_names_import_segment:
  "set (route_names (final (import_segment file index base_name n k segment st)))
     \<subseteq> insert (if n > 1 then base_name @ '' (Segment '' @ str_nat k @ '')'' else base_name)
         (set (route_names st))"
proof (cases segment)
  case (Num x)
  then show ?thesis by (auto simp: import_segment_def)
next
  case (Arr cs)
  show ?thesis
  proof (cases "length cs < 2")
    case True
    with Arr show ?thesis by (auto simp: import_segment_def)
  next
    case False
    show ?thesis
    proof (cases "LineString_init cs")
      case (Inl err)
      obtain e exc where "err = (e, exc)" by (cases err)
      with Arr False Inl show ?thesis
        by (cases e) (auto simp: import_segment_def)
    next
      case (Inr line)
      define name' where
        "name' = (if n > 1 then base_name @ '' (Segment '' @ str_nat k @ '')'' else base_name)"
      obtain rows created where
        uc: "update_or_create (Route_objects (database st)) name' line = (rows, created)"
        by (cases "update_or_create (Route_objects (database st)) name' line")
      have res: "import_segment file index base_name n k segment st
          = Inr (stdout_write ((if created then ''Created'' else ''Updated'')
                                 @ '' route: '' @ name')
                   (st\<lparr> database := (database st)\<lparr> Route_objects := rows \<rparr>,
                        imported := imported st + 1 \<rparr>))"
        using Arr False Inr uc unfolding name'_def
        by (cases "n > 1") (simp_all add: import_segment_def)
      have "map route.name rows = upsert (map route.name (Route_objects (database st))) name'"
        using update_or_create_names [of "Route_objects (database st)" name' line] uc
        by simp
      then have "set (map route.name rows) = insert name' (set (route_names st))"
        by (simp add: set_upsert route_names_def)
      with res show ?thesis
        unfolding name'_def [symmetric]
        by (simp add: route_names_def stdout_write_def)
    qed
  qed
qed

lemma route_names_import_segments:
  "set (route_names (final (import_segments file index base_name n k segments st)))
     \<subseteq> set (route_names st)
         \<union> (\<lambda>i. if n > 1 then base_name @ '' (Segment '' @ str_nat i @ '')'' else base_name)
             ` {k..<k + length segments}"
proof (induction segments arbitrary: k st)
  case Nil
  then show ?case by simp
next
  case (Cons segment rest)
  let ?nm = "\<lambda>i. if n > 1 then base_name @ '' (Segment '' @ str_nat i @ '')'' else base_name"
  have one: "set (route_names (final (import_segment file index base_name n k segment st)))
      \<subseteq> insert (?nm k) (set (route_names st))"
    by (rule route_names_import_segment)
  have "{k..<k + length (segment # rest)} = insert k {Suc k..<Suc k + length rest}"
    by auto
  then have "?nm ` {k..<k + length (segment # rest)}
      = insert (?nm k) (?nm ` {Suc k..<Suc k + length rest})"
    by (simp only: image_insert)
  then have step: "insert (?nm k) (set (route_names st)) \<union> ?nm ` {Suc k..<Suc k + length rest}
      \<subseteq> set (route_names st) \<union> ?nm ` {k..<k + length (segment # rest)}"
    by blast
  show ?case
  proof (cases "import_segment file index base_name n k segment st")
    case (Inl err)
    with one have "set (route_names (final (import_segments file index base_name n k
          (segment # rest) st))) \<subseteq> insert (?nm k) (set (route_names st))"
      by simp
    with step show ?thesis by blast
  next
    case (Inr st1)
    with one have "set (route_names st1) \<subseteq> insert (?nm k) (set (route_names st))"
      by simp
    moreover have "set (route_names (final (import_segments file index base_name n (Suc k) rest st1)))
        \<subseteq> set (route_names st1) \<union> ?nm ` {Suc k..<Suc k + length rest}"
      by (rule Cons.IH)
    ultimately have "set (route_names (final (import_segments file index base_name n (Suc k) rest st1)))
        \<subseteq> insert (?nm k) (set (route_names st)) \<union> ?nm ` {Suc k..<Suc k + length rest}"
      by blast
    from this step have "set (route_names (final (import_segments file index base_name n (Suc k) rest st1)))
        \<subseteq> set (route_names st) \<union> ?nm ` {k..<k + length (segment # rest)}"
      by (rule subset_trans)
    with Inr show ?thesis by simp
  qed
qed

text \<open>
  Claim C9: every route a feature upserts is named by the base name unchanged if the
  feature produced exactly one segment, and by the base name followed by
  \<^verbatim>\<open> (Segment <n>)\<close>, for a position \<open>n\<close> from 1 among the segments, if it produced more
  (also in a run that fails at a later segment). When every segment gives a line, the
  feature upserts one route for each segment, in order, the \<open>n\<close>-th under the name for
  position \<open>n\<close>.
\<close>

theorem import_feature_route_names:
  assumes "geometry feat = Some g"
    and "coordinates g = Some c"
    and "segments_of (geom_type g) c = Inr (Some segments)"
    and "segments \<noteq> []"
  shows "set (route_names (final (import_feature file index feat st)))
           \<subseteq> set (route_names st)
               \<union> final_name (base_name_of file index (properties feat)) (length segments)
                   ` {1..<Suc (length segments)}
         \<and> ((\<forall>s \<in> set segments. line_ok s) \<longrightarrow>
              (\<exists>st'. import_feature file index feat st = Inr st'
                 \<and> route_names st' = foldl upsert (route_names st)
                       (map (final_name (base_name_of file index (properties feat))
                               (length segments))
                          [1..<Suc (length segments)])
                 \<and> imported st' = imported st + length segments
                 \<and> skipped st' = skipped st))"
proof -
  let ?base = "base_name_of file index (properties feat)"
  let ?nm = "\<lambda>i. if length segments > 1 then ?base @ '' (Segment '' @ str_nat i @ '')''
                 else ?base"
  have "Suc 0 \<le> length segments"
    using assms(4) by (cases segments) simp_all
  then have nm: "?nm = final_name ?base (length segments)"
    by (auto simp: final_name_def fun_eq_iff)
  have loop: "truthy c \<Longrightarrow> import_feature file index feat st
      = import_segments file index ?base (length segments) 1 segments st"
    using assms by (simp add: import_feature_def)
  have general: "set (route_names (final (import_feature file index feat st)))
      \<subseteq> set (route_names st) \<union> final_name ?base (length segments) ` {1..<Suc (length segments)}"
  proof (cases "truthy c")
    case True
    have "set (route_names (final (import_segments file index ?base (length segments) 1
            segments st)))
        \<subseteq> set (route_names st) \<union> ?nm ` {1..<1 + length segments}"
      by (rule route_names_import_segments)
    then have "set (route_names (final (import_segments file index ?base (length segments) 1
            segments st)))
        \<subseteq> set (route_names st)
            \<union> final_name ?base (length segments) ` {1..<Suc (length segments)}"
      by (simp only: nm plus_1_eq_Suc)
    then show ?thesis by (simp only: loop [OF True])
  next
    case False
    with assms(1,2) have "import_feature file index feat st = Inr (skip st)"
      by (simp add: import_feature_def)
    then show ?thesis by simp
  qed
  have valid: "\<exists>st'. import_feature file index feat st = Inr st'
         \<and> route_names st' = foldl upsert (route_names st)
               (map (final_name ?base (length segments)) [1..<Suc (length segments)])
         \<and> imported st' = imported st + length segments
         \<and> skipped st' = skipped st"
    if ok: "\<forall>s \<in> set segments. line_ok s"
  proof -
    have "truthy c"
    proof (cases c)
      case (Num x)
      with assms(3,4) ok show ?thesis
        by (auto simp: segments_of_def line_ok_def split: if_splits)
    next
      case (Arr ms)
      with assms(3,4) ok show ?thesis
        by (cases ms) (auto simp: segments_of_def line_ok_def split: if_splits)
    qed
    then have "import_feature file index feat st
        = import_segments file index ?base (length segments) 1 segments st"
      by (rule loop)
    moreover have "\<exists>st'. import_segments file index ?base (length segments) 1 segments st
            = Inr st'
        \<and> route_names st' = foldl upsert (route_names st)
              (map ?nm [1..<1 + length segments])
        \<and> imported st' = imported st + length segments \<and> skipped st' = skipped st"
      using ok by (rule import_segments_line_ok)
    ultimately show ?thesis
      by (simp only: nm plus_1_eq_Suc)
  qed
  from general valid show ?thesis by blast
qed

theorem import_feature_route_names_witness:
  "(\<exists>st'. import_feature ''routes_demo.geojson'' 1 coast_trail start = Inr st'
      \<and> route_names st' = [''River Walk'', ''Coast Trail (Segment 1)'',
           ''Coast Trail (Segment 2)'', ''Coast Trail (Segment 3)'']
      \<and> imported st' = 3 \<and> skipped st' = 0)
   \<and> (\<exists>st'. import_feature ''routes_demo.geojson'' 2 canal_path start = Inr st'
      \<and> route_names st' = [''River Walk'', ''Canal Path'']
      \<and> imported st' = 1 \<and> skipped st' = 0)"
proof -
  define segs where "segs =
    [Arr [pair (-6.27) 53.35, pair (-6.21) 53.35],
     Arr [pair (-6.21) 53.35, pair (-6.20) 53.36],
     Arr [pair (-6.20) 53.36, pair (-6.19) 53.37, pair (-6.18) 53.38]]"
  define g where "g = \<lparr> geom_type = Some ''MultiLineString'', coordinates = Some (Arr segs) \<rparr>"
  have 1: "geometry coast_trail = Some g"
    by (simp add: coast_trail_def g_def segs_def)
  have 2: "coordinates g = Some (Arr segs)"
    by (simp add: g_def)
  have 3: "segments_of (geom_type g) (Arr segs) = Inr (Some segs)"
    by (simp add: g_def segs_def segments_of_def)
  have 4: "segs \<noteq> []"
    by (simp add: segs_def)
  have 5: "\<forall>s \<in> set segs. line_ok s"
    by (simp add: segs_def line_ok_def LineString_init_def pair_def)
  from import_feature_route_names [OF 1 2 3 4, THEN conjunct2, THEN mp, OF 5]
  obtain st' where
    a: "import_feature ''routes_demo.geojson'' 1 coast_trail start = Inr st'" and
    b: "route_names st' = foldl upsert (route_names start)
          (map (final_name (base_name_of ''routes_demo.geojson'' 1 (properties coast_trail))
                  (length segs)) [1..<Suc (length segs)])" and
    c: "imported st' = imported start + length segs" and
    d: "skipped st' = skipped start"
    by blast
  have "route_names st' = [''River Walk'', ''Coast Trail (Segment 1)'',
      ''Coast Trail (Segment 2)'', ''Coast Trail (Segment 3)'']"
    unfolding b
    by (simp add: segs_def coast_trail_def base_name_of_def present_def final_name_def
        upt_conv_Cons str_nat.simps upsert_def start_def route_names_def test_db_def
        river_walk_def)
  moreover have "imported st' = 3" "skipped st' = 0"
    using c d by (simp_all add: start_def segs_def)
  ultimately have multi: "\<exists>st'. import_feature ''routes_demo.geojson'' 1 coast_trail start = Inr st'
      \<and> route_names st' = [''River Walk'', ''Coast Trail (Segment 1)'',
           ''Coast Trail (Segment 2)'', ''Coast Trail (Segment 3)'']
      \<and> imported st' = 3 \<and> skipped st' = 0"
    using a by blast
  define line where "line = Arr [pair (-6.27) 53.35, pair (-6.21) 53.35]"
  define h where "h = \<lparr> geom_type = Some ''LineString'', coordinates = Some line \<rparr>"
  have 6: "geometry canal_path = Some h"
    by (simp add: canal_path_def h_def line_def)
  have 7: "coordinates h = Some line"
    by (simp add: h_def)
  have 8: "segments_of (geom_type h) line = Inr (Some [line])"
    by (simp add: h_def segments_of_def)
  have 9: "[line] \<noteq> []"
    by simp
  have 10: "\<forall>s \<in> set [line]. line_ok s"
    by (simp add: line_def line_ok_def LineString_init_def pair_def)
  from import_feature_route_names [OF 6 7 8 9, THEN conjunct2, THEN mp, OF 10]
  obtain st2 where
    a2: "import_feature ''routes_demo.geojson'' 2 canal_path start = Inr st2" and
    b2: "route_names st2 = foldl upsert (route_names start)
          (map (final_name (base_name_of ''routes_demo.geojson'' 2 (properties canal_path))
                  (length [line])) [1..<Suc (length [line])])" and
    c2: "imported st2 = imported start + length [line]" and
    d2: "skipped st2 = skipped start"
    by blast
  have "route_names st2 = [''River Walk'', ''Canal Path'']"
    unfolding b2
    by (simp add: canal_path_def base_name_of_def present_def final_name_def
        upsert_def start_def route_names_def test_db_def river_walk_def)
  moreover have "imported st2 = 1" "skipped st2 = 0"
    using c2 d2 by (simp_all add: start_def)
  ultimately have single: "\<exists>st'. import_feature ''routes_demo.geojson'' 2 canal_path start = Inr st'
      \<and> route_names st' = [''River Walk'', ''Canal Path'']
      \<and> imported st' = 1 \<and> skipped st' = 0"
    using a2 by blast
  from multi single show ?thesis by (rule conjI)
qed

subsection \<open>Short members of a MultiLineString\<close>

lemma long_members_filter:
  "long_members members = Some segments \<Longrightarrow> segments = filter is_long members"
  by (induction members arbitrary: segments rule: long_members.induct)
     (auto simp: is_long_def split: option.splits if_splits)

lemma skipped_import_segment_long:
  assumes "is_long segment"
  shows "skipped (final (import_segment file index base_name n k segment st)) = skipped st"
proof -
  from assms obtain cs where cs: "segment = Arr cs" "\<not> length cs < 2"
    by (cases segment) (auto simp: is_long_def)
  show ?thesis
  proof (cases "LineString_init cs")
    case (Inl err)
    obtain e exc where "err = (e, exc)" by (cases err)
    with cs Inl show ?thesis
      by (cases e) (simp_all add: import_segment_def)
  next
    case (Inr line)
    with cs show ?thesis
      by (simp add: import_segment_def Let_def stdout_write_def split: prod.splits)
  qed
qed

lemma skipped_import_segments_long:
  assumes "\<forall>s \<in> set segments. is_long s"
  shows "skipped (final (import_segments file index base_name n k segments st)) = skipped st"
  using assms
proof (induction segments arbitrary: k st)
  case Nil
  then show ?case by simp
next
  case (Cons segment rest)
  from Cons.prems have long: "is_long segment" and rest: "\<forall>s \<in> set rest. is_long s"
    by simp_all
  have one: "skipped (final (import_segment file index base_name n k segment st)) = skipped st"
    using long by (rule skipped_import_segment_long)
  show ?case
  proof (cases "import_segment file index base_name n k segment st")
    case (Inl err)
    with one show ?thesis by simp
  next
    case (Inr st1)
    with one have "skipped st1 = skipped st" by simp
    moreover have "skipped (final (import_segments file index base_name n (Suc k) rest st1))
        = skipped st1"
      using rest by (rule Cons.IH)
    ultimately show ?thesis using Inr by simp
  qed
qed

text \<open>
  Claim C10 as stated (each member of a \<^verbatim>\<open>MultiLineString\<close> with fewer than 2 coordinate
  pairs increments the skip counter, so \<open>m\<close> such members add \<open>m\<close> to the skipped total) is
  false for a feature with four members, two of them short: the feature adds nothing to
  the skip counter, and the summary of the run reports no skip at all.
\<close>

theorem MultiLineString_short_members_not_counted:
  "geom_type (the (geometry broken_loop)) = Some ''MultiLineString''
   \<and> coordinates (the (geometry broken_loop)) = Some (Arr
           [Arr [pair 1 2],
            Arr [pair 1 2, pair 3 4],
            Arr [],
            Arr [pair 5 6, pair 7 8, pair 9 10]])
   \<and> short_members [Arr [pair 1 2],
            Arr [pair 1 2, pair 3 4],
            Arr [],
            Arr [pair 5 6, pair 7 8, pair 9 10]] = 2
   \<and> skipped (final (import_feature ''routes_demo.geojson'' 1 broken_loop start)) = skipped start
   \<and> imported (final (import_feature ''routes_demo.geojson'' 1 broken_loop start)) = 2
   \<and> last (stdout (final (handle [routes_demo] False test_db)))
       = ''Imported or updated 2 route segments.''"
  by (simp add: import_fixture_defs import_defs short_members_def str_nat.simps Let_def
      fixture_defs)

text \<open>
  Claim C10, amended: the members of a \<^verbatim>\<open>MultiLineString\<close> with fewer than 2 coordinate
  pairs are dropped when the segments are built, before the loop over the segments and
  without touching the skip counter; the feature adds 1 to the skipped total when no
  member is left, and nothing otherwise, whatever the number of short members.
\<close>

theorem MultiLineString_skipped:
  assumes "geometry feat = Some g"
    and "geom_type g = Some ''MultiLineString''"
    and "coordinates g = Some (Arr members)"
    and "long_members members = Some segments"
  shows "segments = filter is_long members
         \<and> skipped (final (import_feature file index feat st))
             = skipped st + (if segments = [] then 1 else 0)"
proof -
  have seg: "segments = filter is_long members"
    using assms(4) by (rule long_members_filter)
  have "skipped (final (import_feature file index feat st))
      = skipped st + (if segments = [] then 1 else 0)"
  proof (cases "members = []")
    case True
    with assms show ?thesis
      by (simp add: import_feature_def skip_def)
  next
    case False
    show ?thesis
    proof (cases "segments = []")
      case True
      with False assms show ?thesis
        by (simp add: import_feature_def segments_of_def skip_def)
    next
      case nonempty: False
      from seg have "\<forall>s \<in> set segments. is_long s" by simp
      then have "skipped (final (import_segments file index
            (base_name_of file index (properties feat)) (length segments) 1 segments st))
          = skipped st"
        by (rule skipped_import_segments_long)
      with False nonempty assms show ?thesis
        by (simp add: import_feature_def segments_of_def)
    qed
  qed
  with seg show ?thesis by blast
qed

theorem MultiLineString_skipped_witness:
  "skipped (final (import_feature ''routes_demo.geojson'' 1 broken_loop start)) = skipped start
   \<and> skipped (final (import_feature ''routes_demo.geojson'' 2 stubs start)) = skipped start + 1"
proof -
  have a: "skipped (final (import_feature ''routes_demo.geojson'' 1 broken_loop start)) = skipped start"
    using MultiLineString_skipped [of broken_loop "the (geometry broken_loop)"
      "[Arr [pair 1 2], Arr [pair 1 2, pair 3 4], Arr [], Arr [pair 5 6, pair 7 8, pair 9 10]]"
      "[Arr [pair 1 2, pair 3 4], Arr [pair 5 6, pair 7 8, pair 9 10]]"
      "''routes_demo.geojson''" 1 start]
    by (simp add: broken_loop_def pair_def)
  have b: "skipped (final (import_feature ''routes_demo.geojson'' 2 stubs start)) = skipped start + 1"
    using MultiLineString_skipped [of stubs "the (geometry stubs)"
      "[Arr [pair 1 2], Arr []]" "[]" "''routes_demo.geojson''" 2 start]
    by (simp add: stubs_def pair_def)
  from a b show ?thesis by simp
qed

end
